theory Spec2Isabelle
  imports Complex_Main "HOL-Library.Word"
begin

unbundle bit_operations_syntax

section \<open>Go values, errors and outcomes\<close>

text \<open>
  The package \<open>daas\<close> (file \<open>postgres.go\<close>) is a thin layer over \<open>database/sql\<close> and
  \<open>lib/pq\<close>. Everything the driver does is an input of the model: a transaction, a
  cursor and a listener are records that hold what the driver will answer.

  A Go \<open>error\<close> is either the sentinel \<open>sql.ErrNoRows\<close> (compared by identity in
  \<open>fetchRow\<close>) or an error that carries a message, as \<open>fmt.Errorf\<close> and the driver
  produce. \<open>nil\<close> is \<open>None\<close> of \<open>error option\<close>.
\<close>

datatype error = ErrNoRows | ErrorString string

fun Error :: "error \<Rightarrow> string" where
  "Error ErrNoRows = ''sql: no rows in result set''"
| "Error (ErrorString m) = m"

text \<open>A call either returns or panics (a nil dereference, a failed type assertion,
  closing a closed channel).\<close>

datatype 'a outcome = Panic string | Return 'a

datatype go_context = Background

section \<open>The Go standard library, as the program calls it\<close>

text \<open>
  A Go string is a sequence of bytes; \<open>ord\<close> is the byte of a character. The
  functions below follow the Go library (\<open>strconv\<close>, \<open>fmt\<close>, \<open>strings\<close>, \<open>time\<close>,
  \<open>regexp\<close>), specialised to the arguments \<open>postgres.go\<close> passes.
\<close>

definition ord :: "char \<Rightarrow> nat" where
  "ord c = of_char c"

definition digit_char :: "nat \<Rightarrow> char" where
  "digit_char d = ''0123456789'' ! (d mod 10)"

definition isDigitChar :: "char \<Rightarrow> bool" where
  "isDigitChar c = (ord CHR ''0'' \<le> ord c \<and> ord c \<le> ord CHR ''9'')"

subsection \<open>\<open>fmt.Sprint\<close> of an \<open>int64\<close>, \<open>%d\<close>, \<open>%t\<close>\<close>

text \<open>Decimal digits of a number that is not negative, most significant first, no
  leading zero.\<close>

function digits10 :: "int \<Rightarrow> string" where
  "digits10 n = (if n < 10 then [digit_char (nat n)]
                 else digits10 (n div 10) @ [digit_char (nat (n mod 10))])"
  by pat_completeness auto
termination
  by (relation "measure nat") auto

declare digits10.simps [simp del]

text \<open>\<open>strconv.FormatInt(i, 10)\<close>, which \<open>fmt.Sprint\<close> and \<open>%d\<close> use for integers.\<close>

definition FormatInt :: "int \<Rightarrow> string" where
  "FormatInt i = (if i < 0 then CHR ''-'' # digits10 (- i) else digits10 i)"

type_synonym int64 = "64 word"

definition Sprint_int64 :: "int64 \<Rightarrow> string" where
  "Sprint_int64 v = FormatInt (sint v)"

definition Sprintf_t :: "bool \<Rightarrow> string" where
  "Sprintf_t b = (if b then ''true'' else ''false'')"

subsection \<open>\<open>strconv.ParseBool\<close>, \<open>strconv.ParseInt(s, 0, 64)\<close>\<close>

datatype num_err = ErrSyntax | ErrRange

text \<open>\<open>strconv.NumError{Func, Num, Err}\<close>.\<close>

datatype NumError = NumError string string num_err

definition ParseBool :: "string \<Rightarrow> bool \<times> NumError option" where
  "ParseBool str =
     (if str \<in> set [''1'', ''t'', ''T'', ''true'', ''TRUE'', ''True''] then (True, None)
      else if str \<in> set [''0'', ''f'', ''F'', ''false'', ''FALSE'', ''False''] then (False, None)
      else (False, Some (NumError ''ParseBool'' str ErrSyntax)))"

text \<open>\<open>lower(c) = c | ('x' - 'X')\<close>, as a byte.\<close>

definition lower :: "char \<Rightarrow> nat" where
  "lower c = ord c OR 32"

definition maxUint64 :: int where
  "maxUint64 = 2 ^ 64 - 1"

text \<open>
  The digit loop of \<open>ParseUint\<close>, with \<open>bitSize = 64\<close> (so \<open>maxVal = maxUint64\<close>) and
  \<open>base0\<close> true. \<open>n\<close> is a \<open>uint64\<close>: the sum \<open>n + d\<close> wraps modulo \<open>2^64\<close>, and the
  product cannot (it is guarded by the cutoff). The result is the value, the error
  kind if any, and whether an underscore was seen.
\<close>

fun ParseUint_loop :: "int \<Rightarrow> string \<Rightarrow> int \<Rightarrow> bool \<Rightarrow> int \<times> num_err option \<times> bool" where
  "ParseUint_loop base [] n underscores = (n, None, underscores)"
| "ParseUint_loop base (c # cs) n underscores =
     (if c = CHR ''_'' then ParseUint_loop base cs n True
      else if \<not> (isDigitChar c \<or> (ord CHR ''a'' \<le> lower c \<and> lower c \<le> ord CHR ''z''))
        then (0, Some ErrSyntax, underscores)
      else
        let d = (if isDigitChar c then int (ord c - ord CHR ''0'') else int (lower c - ord CHR ''a'' + 10)) in
        if d \<ge> base then (0, Some ErrSyntax, underscores)
        else if n \<ge> maxUint64 div base + 1 then (maxUint64, Some ErrRange, underscores)
        else
          let n0 = n * base; n1 = (n0 + d) mod 2 ^ 64 in
          if n1 < n0 \<or> n1 > maxUint64 then (maxUint64, Some ErrRange, underscores)
          else ParseUint_loop base cs n1 underscores)"

text \<open>
  \<open>underscoreOK\<close>: underscores only between digits or between a base prefix and a
  digit. \<open>saw\<close> is the last character class seen: \<open>^\<close>, \<open>0\<close>, \<open>_\<close> or \<open>!\<close>.
\<close>

fun underscoreOK_loop :: "bool \<Rightarrow> char \<Rightarrow> string \<Rightarrow> bool" where
  "underscoreOK_loop hex saw [] = (saw \<noteq> CHR ''_'')"
| "underscoreOK_loop hex saw (c # cs) =
     (if isDigitChar c \<or> (hex \<and> ord CHR ''a'' \<le> lower c \<and> lower c \<le> ord CHR ''f'')
        then underscoreOK_loop hex CHR ''0'' cs
      else if c = CHR ''_''
        then (if saw \<noteq> CHR ''0'' then False else underscoreOK_loop hex CHR ''_'' cs)
      else if saw = CHR ''_'' then False
      else underscoreOK_loop hex CHR ''!'' cs)"

definition underscoreOK :: "string \<Rightarrow> bool" where
  "underscoreOK s0 =
     (let s = (if length s0 \<ge> 1 \<and> (hd s0 = CHR ''-'' \<or> hd s0 = CHR ''+'') then tl s0 else s0) in
      if length s \<ge> 2 \<and> s ! 0 = CHR ''0'' \<and>
         (lower (s ! 1) = ord CHR ''b'' \<or> lower (s ! 1) = ord CHR ''o'' \<or> lower (s ! 1) = ord CHR ''x'')
      then underscoreOK_loop (lower (s ! 1) = ord CHR ''x'') CHR ''0'' (drop 2 s)
      else underscoreOK_loop False CHR ''^'' s)"

text \<open>\<open>ParseUint(s, 0, 64)\<close>: the base comes from the prefix.\<close>

definition ParseUint :: "string \<Rightarrow> int \<times> num_err option" where
  "ParseUint s0 =
     (if s0 = [] then (0, Some ErrSyntax)
      else
        let (base, s) =
          (if s0 ! 0 = CHR ''0'' then
             (if length s0 \<ge> 3 \<and> lower (s0 ! 1) = ord CHR ''b'' then (2, drop 2 s0)
              else if length s0 \<ge> 3 \<and> lower (s0 ! 1) = ord CHR ''o'' then (8, drop 2 s0)
              else if length s0 \<ge> 3 \<and> lower (s0 ! 1) = ord CHR ''x'' then (16, drop 2 s0)
              else (8, drop 1 s0))
           else (10, s0))
        in
        case ParseUint_loop base s 0 False of
          (n, Some e, _) \<Rightarrow> (n, Some e)
        | (n, None, underscores) \<Rightarrow>
            if underscores \<and> \<not> underscoreOK s0 then (0, Some ErrSyntax) else (n, None))"

text \<open>
  \<open>ParseInt(s, 0, 64)\<close>: the sign is picked off, the magnitude is parsed unsigned and
  checked against \<open>cutoff = 1 << 63\<close>. On a range error the value returned is the
  nearest bound, not zero.
\<close>

definition ParseInt :: "string \<Rightarrow> int64 \<times> NumError option" where
  "ParseInt s0 =
     (if s0 = [] then (0, Some (NumError ''ParseInt'' s0 ErrSyntax))
      else
        let neg = (s0 ! 0 = CHR ''-'');
            s = (if s0 ! 0 = CHR ''+'' \<or> s0 ! 0 = CHR ''-'' then drop 1 s0 else s0);
            (un, err) = ParseUint s;
            cutoff = (2::int) ^ 63
        in
        if err = Some ErrSyntax then (0, Some (NumError ''ParseInt'' s0 ErrSyntax))
        else if \<not> neg \<and> un \<ge> cutoff then (of_int (cutoff - 1), Some (NumError ''ParseInt'' s0 ErrRange))
        else if neg \<and> un > cutoff then (- of_int cutoff, Some (NumError ''ParseInt'' s0 ErrRange))
        else (if neg then - of_int un else of_int un, None))"

subsection \<open>\<open>time.Time\<close>, \<open>Format\<close> and \<open>Parse\<close> with the layout \<open>time.RFC3339Nano\<close>\<close>

text \<open>
  A \<open>time.Time\<close> is an instant, \<open>unixSec\<close> seconds and \<open>nsec\<close> nanoseconds after
  1970-01-01T00:00:00Z with \<open>0 \<le> nsec < 10^9\<close>, together with the offset in seconds
  east of UTC that its location has at that instant. Go computes calendar fields from
  the seconds since the absolute zero year, an unsigned 64-bit count; the model uses
  unbounded integers, which agrees with Go wherever that count is not negative.
\<close>

record Time =
  unixSec :: int
  nsec :: int
  offset :: int

text \<open>The zero value \<open>time.Time{}\<close>: January 1, year 1, 00:00:00 UTC.\<close>

definition zeroTime :: Time where
  "zeroTime = \<lparr>unixSec = - 62135596800, nsec = 0, offset = 0\<rparr>"

definition absoluteZeroYear :: int where
  "absoluteZeroYear = - 292277022399"

text \<open>\<open>unixToInternal + internalToAbsolute\<close>.\<close>

definition unixToAbsolute :: int where
  "unixToAbsolute = 62135596800 + 9223371966579724800"

definition abs_sec :: "Time \<Rightarrow> int" where
  "abs_sec t = unixSec t + offset t + unixToAbsolute"

definition daysBefore :: "int \<Rightarrow> int" where
  "daysBefore m = [0, 31, 59, 90, 120, 151, 181, 212, 243, 273, 304, 334, 365] ! nat m"

definition isLeap :: "int \<Rightarrow> bool" where
  "isLeap year = (year mod 4 = 0 \<and> (year mod 100 \<noteq> 0 \<or> year mod 400 = 0))"

definition daysIn :: "int \<Rightarrow> int \<Rightarrow> int" where
  "daysIn m year = (if m = 2 \<and> isLeap year then 29 else daysBefore m - daysBefore (m - 1))"

text \<open>
  \<open>absDate(abs, true)\<close>: the year, month and day of an absolute second count, cutting
  off 400-year, 100-year, 4-year and 1-year cycles, then estimating the month.
\<close>

definition absDate :: "int \<Rightarrow> int \<times> int \<times> int" where
  "absDate ab =
     (let d0 = ab div 86400;
          n400 = d0 div 146097;
          d1 = d0 - 146097 * n400;
          n100a = d1 div 36524;
          n100 = n100a - n100a div 4;
          d2 = d1 - 36524 * n100;
          n4 = d2 div 1461;
          d3 = d2 - 1461 * n4;
          n1a = d3 div 365;
          n1 = n1a - n1a div 4;
          yday = d3 - 365 * n1;
          year = 400 * n400 + 100 * n100 + 4 * n4 + n1 + absoluteZeroYear
      in
      if isLeap year \<and> yday = 31 + 29 - 1 then (year, 2, 29)
      else
        let day = (if isLeap year \<and> yday > 31 + 29 - 1 then yday - 1 else yday);
            month = day div 31;
            end = daysBefore (month + 1)
        in
        if day \<ge> end then (year, month + 2, day - end + 1)
        else (year, month + 1, day - daysBefore month + 1))"

definition absClock :: "int \<Rightarrow> int \<times> int \<times> int" where
  "absClock ab =
     (let sec0 = ab mod 86400;
          hour = sec0 div 3600;
          sec1 = sec0 - hour * 3600;
          minute = sec1 div 60
      in (hour, minute, sec1 - minute * 60))"

definition daysSinceEpoch :: "int \<Rightarrow> int" where
  "daysSinceEpoch year =
     (let y = year - absoluteZeroYear;
          n400 = y div 400;
          y1 = y - 400 * n400;
          n100 = y1 div 100;
          y2 = y1 - 100 * n100;
          n4 = y2 div 4;
          y3 = y2 - 4 * n4
      in 146097 * n400 + 36524 * n100 + 1461 * n4 + 365 * y3)"

text \<open>
  \<open>Date(year, month, day, hour, min, sec, nsec, UTC)\<close> followed by
  \<open>addSec(-zoneOffset)\<close> and \<open>setLoc\<close> of a zone with that offset. \<open>Parse\<close> calls it with
  fields it has range-checked, for which the normalisation steps of \<open>Date\<close> change
  nothing.
\<close>

definition Date :: "int \<Rightarrow> int \<Rightarrow> int \<Rightarrow> int \<Rightarrow> int \<Rightarrow> int \<Rightarrow> int \<Rightarrow> int \<Rightarrow> Time" where
  "Date year month day hour minute sec ns zoneOffset =
     (let d = daysSinceEpoch year + daysBefore (month - 1)
              + (if isLeap year \<and> month \<ge> 3 then 1 else 0) + (day - 1);
          ab = d * 86400 + hour * 3600 + minute * 60 + sec
      in \<lparr>unixSec = ab - unixToAbsolute - zoneOffset, nsec = ns, offset = zoneOffset\<rparr>)"

text \<open>\<open>appendInt(b, x, width)\<close>: sign, zero padding to \<open>width\<close>, decimal digits.\<close>

definition appendInt :: "int \<Rightarrow> nat \<Rightarrow> string" where
  "appendInt x width =
     (let ds = digits10 \<bar>x\<bar> in
      (if x < 0 then ''-'' else []) @ replicate (width - length ds) CHR ''0'' @ ds)"

text \<open>\<open>appendNano\<close> for \<open>.999999999\<close>: nothing for zero, else nine digits with the
  trailing zeros trimmed.\<close>

definition appendNano :: "int \<Rightarrow> string" where
  "appendNano nanosec =
     (if nanosec = 0 then []
      else CHR ''.'' # rev (dropWhile (\<lambda>c. c = CHR ''0'') (rev (appendInt nanosec 9))))"

text \<open>The zone of \<open>Z07:00\<close>: \<open>Z\<close> for offset zero, else sign, hours and minutes;
  \<open>offset / 60\<close> truncates toward zero.\<close>

definition appendZone :: "int \<Rightarrow> string" where
  "appendZone off =
     (if off = 0 then ''Z''
      else
        let zone = (if off < 0 then - ((- off) div 60) else off div 60) in
        (if zone < 0 then ''-'' else ''+'')
        @ appendInt (\<bar>zone\<bar> div 60) 2 @ '':'' @ appendInt (\<bar>zone\<bar> mod 60) 2)"

text \<open>\<open>t.Format(time.RFC3339Nano)\<close>.\<close>

definition Format :: "Time \<Rightarrow> string" where
  "Format t =
     (let (year, month, day) = absDate (abs_sec t);
          (hour, minute, sec) = absClock (abs_sec t)
      in appendInt year 4 @ ''-'' @ appendInt month 2 @ ''-'' @ appendInt day 2 @ ''T''
         @ appendInt hour 2 @ '':'' @ appendInt minute 2 @ '':'' @ appendInt sec 2
         @ appendNano (nsec t) @ appendZone (offset t))"


text \<open>
  \<open>time.Parse(time.RFC3339Nano, value)\<close>, element by element as the layout
  \<open>2006-01-02T15:04:05.999999999Z07:00\<close> drives the general parser: a year of four
  digits, month, day, minute and second of two digits, an hour of one or two digits, an
  optional fraction, and the zone. Every failure is a \<open>*ParseError\<close>, of which only the
  text it quotes is kept, and comes with the zero time.
\<close>

datatype ParseError = ParseError string

definition isDigit :: "string \<Rightarrow> nat \<Rightarrow> bool" where
  "isDigit s i = (i < length s \<and> isDigitChar (s ! i))"

definition digitVal :: "char \<Rightarrow> int" where
  "digitVal c = int (ord c) - int (ord CHR ''0'')"

text \<open>The value of a run of decimal digits.\<close>

definition decimal :: "string \<Rightarrow> int" where
  "decimal p = foldl (\<lambda>x c. x * 10 + digitVal c) 0 p"

definition getnum :: "string \<Rightarrow> bool \<Rightarrow> (int \<times> string) option" where
  "getnum s fixed =
     (if \<not> isDigit s 0 then None
      else if \<not> isDigit s 1 then (if fixed then None else Some (digitVal (s ! 0), drop 1 s))
      else Some (digitVal (s ! 0) * 10 + digitVal (s ! 1), drop 2 s))"

text \<open>\<open>skip(value, prefix)\<close> for a prefix of one character that is not a space.\<close>

definition skip :: "string \<Rightarrow> char \<Rightarrow> string option" where
  "skip v c = (case v of [] \<Rightarrow> None | x # xs \<Rightarrow> if x = c then Some xs else None)"

text \<open>\<open>stdLongYear\<close>: four characters, the first a digit, read by \<open>atoi\<close>.\<close>

definition parseYear :: "string \<Rightarrow> (int \<times> string) option" where
  "parseYear v =
     (if length v < 4 \<or> \<not> isDigit v 0 then None
      else if list_all isDigitChar (take 4 v) then Some (decimal (take 4 v), drop 4 v)
      else None)"

text \<open>
  \<open>stdFracSecond9\<close>: an optional fraction, a period or comma and then as many digits as
  there are; \<open>parseNanoseconds\<close> reads at most nine of them and scales to nanoseconds.
\<close>

definition parseFrac :: "string \<Rightarrow> int \<times> string" where
  "parseFrac v =
     (if length v < 2 \<or> \<not> (v ! 0 = CHR ''.'' \<or> v ! 0 = CHR '','') \<or> \<not> isDigitChar (v ! 1)
      then (0, v)
      else
        let ds = takeWhile isDigitChar (drop 1 v);
            ds9 = take 9 ds
        in (decimal ds9 * 10 ^ (9 - length ds9), drop (1 + length ds) v))"

text \<open>\<open>stdISO8601ColonTZ\<close>: \<open>Z\<close>, or a sign, two digits, a colon and two digits, with
  hours up to 24 and minutes up to 60. The result is the zone offset in seconds and the
  rest of the text.\<close>

definition parseZone :: "string \<Rightarrow> (int \<times> string) option" where
  "parseZone v =
     (if length v \<ge> 1 \<and> v ! 0 = CHR ''Z'' then Some (0, drop 1 v)
      else if length v < 6 then None
      else if v ! 3 \<noteq> CHR '':'' then None
      else
        Option.bind (getnum (take 2 (drop 1 v)) True) (\<lambda>(hr, _).
        Option.bind (getnum (take 2 (drop 4 v)) True) (\<lambda>(mm, _).
        if hr > 24 \<or> mm > 60 then None
        else if v ! 0 = CHR ''+'' then Some ((hr * 60 + mm) * 60, drop 6 v)
        else if v ! 0 = CHR ''-'' then Some (- ((hr * 60 + mm) * 60), drop 6 v)
        else None)))"

text \<open>The date, the clock and the zone in turn; \<open>None\<close> is a failed element, a value
  out of range, or text left over.\<close>

definition parseDate :: "string \<Rightarrow> (int \<times> int \<times> int \<times> string) option" where
  "parseDate v0 =
     Option.bind (parseYear v0) (\<lambda>(year, v1).
     Option.bind (skip v1 CHR ''-'') (\<lambda>v2.
     Option.bind (getnum v2 True) (\<lambda>(month, v3).
     if month \<le> 0 \<or> 12 < month then None else
     Option.bind (skip v3 CHR ''-'') (\<lambda>v4.
     Option.bind (getnum v4 True) (\<lambda>(day, v5).
     Some (year, month, day, v5))))))"

definition parseClock :: "string \<Rightarrow> (int \<times> int \<times> int \<times> string) option" where
  "parseClock v6 =
     Option.bind (getnum v6 False) (\<lambda>(hour, v7).
     if hour < 0 \<or> 24 \<le> hour then None else
     Option.bind (skip v7 CHR '':'') (\<lambda>v8.
     Option.bind (getnum v8 True) (\<lambda>(minute, v9).
     if minute < 0 \<or> 60 \<le> minute then None else
     Option.bind (skip v9 CHR '':'') (\<lambda>v10.
     Option.bind (getnum v10 True) (\<lambda>(sec, v11).
     if sec < 0 \<or> 60 \<le> sec then None else
     Some (hour, minute, sec, v11))))))"

definition parseFields :: "string \<Rightarrow> Time option" where
  "parseFields v0 =
     Option.bind (parseDate v0) (\<lambda>(year, month, day, v5).
     Option.bind (skip v5 CHR ''T'') (\<lambda>v6.
     Option.bind (parseClock v6) (\<lambda>(hour, minute, sec, v11).
     let (ns, v12) = parseFrac v11 in
     Option.bind (parseZone v12) (\<lambda>(zoneOffset, v13).
     if v13 \<noteq> [] then None
     else if day < 1 \<or> day > daysIn month year then None
     else Some (Date year month day hour minute sec ns zoneOffset)))))"

definition Parse :: "string \<Rightarrow> Time \<times> ParseError option" where
  "Parse v = (case parseFields v of None \<Rightarrow> (zeroTime, Some (ParseError v)) | Some t \<Rightarrow> (t, None))"

subsection \<open>\<open>strings.Contains\<close>, \<open>strings.ReplaceAll\<close>, \<open>strings.Split\<close>, \<open>regexp\<close> replacement\<close>

fun Contains :: "string \<Rightarrow> string \<Rightarrow> bool" where
  "Contains [] substr = (substr = [])"
| "Contains (c # cs) substr = (take (length substr) (c # cs) = substr \<or> Contains cs substr)"

text \<open>\<open>strings.ReplaceAll(s, old, new)\<close> for a non-empty \<open>old\<close>: the occurrences are
  found left to right and do not overlap.\<close>

function ReplaceAll :: "string \<Rightarrow> string \<Rightarrow> string \<Rightarrow> string" where
  "ReplaceAll s old new =
     (if old = [] \<or> s = [] then s
      else if take (length old) s = old then new @ ReplaceAll (drop (length old) s) old new
      else hd s # ReplaceAll (tl s) old new)"
  by pat_completeness auto
termination
  by (relation "measure (\<lambda>(s, old, new). length s)") (auto simp: neq_Nil_conv)

declare ReplaceAll.simps [simp del]

text \<open>\<open>strings.Split(s, "\n")\<close>.\<close>

fun Split :: "string \<Rightarrow> string list" where
  "Split [] = [[]]"
| "Split (c # cs) =
     (if c = CHR 0x0A then [] # Split cs else (c # hd (Split cs)) # tl (Split cs))"

text \<open>
  \<open>Regexp.expand\<close> of a replacement template, for a pattern without capture groups:
  \<open>$$\<close> is a dollar sign, \<open>$name\<close> and \<open>${name}\<close> are replaced by the whole match when the
  name is \<open>0\<close> and by nothing otherwise, and a dollar sign that no name follows stays.
  A name is the longest run of letters, digits and underscores; letters beyond ASCII
  are not modelled and end the name.
\<close>

definition isNameChar :: "char \<Rightarrow> bool" where
  "isNameChar c =
     (isDigitChar c \<or> c = CHR ''_'' \<or> (ord CHR ''a'' \<le> lower c \<and> lower c \<le> ord CHR ''z''))"

text \<open>\<open>extract\<close>: the name after a dollar sign and the number of bytes it takes up,
  braces included; \<open>None\<close> when malformed.\<close>

definition extractName :: "string \<Rightarrow> (string \<times> nat) option" where
  "extractName str =
     (if str = [] then None
      else
        let brace = (hd str = CHR ''{'');
            str1 = (if brace then tl str else str);
            name = takeWhile isNameChar str1;
            i = length name
        in
        if i = 0 then None
        else if brace then
          (if i \<ge> length str1 \<or> str1 ! i \<noteq> CHR ''}'' then None else Some (name, i + 2))
        else Some (name, i))"

fun expand :: "string \<Rightarrow> string \<Rightarrow> string" where
  "expand m [] = []"
| "expand m (c # t) =
     (if c \<noteq> CHR ''$'' then c # expand m t
      else if t \<noteq> [] \<and> hd t = CHR ''$'' then CHR ''$'' # expand m (tl t)
      else
        case extractName t of
          None \<Rightarrow> CHR ''$'' # expand m t
        | Some (name, k) \<Rightarrow> (if name = ''0'' then m else []) @ expand m (drop k t))"

text \<open>
  \<open>regexp.MustCompile(`\$N`).ReplaceAllString(src, repl)\<close>: the pattern matches the
  literal text \<open>$N\<close>, and each match is replaced by the expanded template.
\<close>

definition ReplaceAllString :: "string \<Rightarrow> string \<Rightarrow> string \<Rightarrow> string" where
  "ReplaceAllString pat src repl = ReplaceAll src pat (expand pat repl)"

section \<open>Driver values, rows and the log\<close>

text \<open>
  The values \<open>rows.Scan\<close> stores into \<open>interface{}\<close> destinations, by runtime type:
  \<open>nil\<close>, \<open>int64\<close>, \<open>float64\<close>, \<open>string\<close>, \<open>[]uint8\<close>, \<open>bool\<close>, \<open>time.Time\<close>, or a value
  of another type, of which only the name that \<open>reflect.TypeOf(val).String()\<close> gives
  is kept (a name other than these six). A \<open>float64\<close> is its IEEE 754 bit pattern; floating-point formatting and
  parsing are parameters of the functions that use them. The same type serves for the
  positional arguments of a query.
\<close>

type_synonym float64 = "64 word"

datatype iface =
    VNil
  | VInt64 int64
  | VFloat64 float64
  | VString string
  | VBytes string
  | VBool bool
  | VTime Time
  | VOther string

text \<open>\<open>reflect.TypeOf(val)\<close>, by the name \<open>String()\<close> gives it; \<open>None\<close> for the nil
  interface.\<close>

fun TypeOf :: "iface \<Rightarrow> string option" where
  "TypeOf VNil = None"
| "TypeOf (VInt64 v) = Some ''int64''"
| "TypeOf (VFloat64 v) = Some ''float64''"
| "TypeOf (VString v) = Some ''string''"
| "TypeOf (VBytes v) = Some ''[]uint8''"
| "TypeOf (VBool v) = Some ''bool''"
| "TypeOf (VTime v) = Some ''time.Time''"
| "TypeOf (VOther ty) = Some ty"

text \<open>
  Modelled from the spec: the logging helpers \<open>Errorf\<close>, \<open>Infof\<close>, \<open>EstimatedPrint\<close>, the
  logger \<open>logNone\<close> and \<open>Estimated\<close> are defined elsewhere in the package. A call is
  recorded in the log, in order, with its format and arguments; the elapsed
  milliseconds that \<open>Estimated\<close> returns are an input.
\<close>

datatype log_arg = AString string | ANumError NumError | AParseError ParseError

datatype log_entry =
    Errorf string "log_arg list"
  | Infof string "log_arg list"
  | EstimatedPrint string
  | Printf string
  | Println string

type_synonym log = "log_entry list"

text \<open>\<open>type PGRow map[string]string\<close>; \<open>None\<close> is the nil map. Indexing a map (nil or
  not) with a key it does not hold gives the empty string.\<close>

type_synonym PGRow = "(string \<rightharpoonup> string) option"

type_synonym PGRecord = "PGRow list"

definition index :: "PGRow \<Rightarrow> string \<Rightarrow> string" where
  "index pg name =
     (case pg of None \<Rightarrow> [] | Some m \<Rightarrow> (case m name of None \<Rightarrow> [] | Some v \<Rightarrow> v))"

text \<open>
  \<open>sql_Rows\<close> is the cursor: what \<open>rows.Columns()\<close> answers, the row \<open>rows.Next()\<close> has
  made current (what \<open>rows.Scan\<close> will find there: an error or the row's values), and
  the rows still to come.
\<close>

record sql_Rows =
  rows_Columns :: "error + string list"
  rows_current :: "(error + iface list) option"
  rows_pending :: "(error + iface list) list"

definition Next :: "sql_Rows \<Rightarrow> bool \<times> sql_Rows" where
  "Next rows =
     (case rows_pending rows of
        [] \<Rightarrow> (False, rows\<lparr>rows_current := None\<rparr>)
      | r # rs \<Rightarrow> (True, rows\<lparr>rows_current := Some r, rows_pending := rs\<rparr>))"

text \<open>\<open>rows.Scan(pointers...)\<close> with \<open>n\<close> destinations of type \<open>*interface{}\<close>, which
  take any value.\<close>

definition Scan :: "sql_Rows \<Rightarrow> nat \<Rightarrow> error + iface list" where
  "Scan rows n =
     (case rows_current rows of
        None \<Rightarrow> Inl (ErrorString ''sql: Scan called without calling Next'')
      | Some (Inl err) \<Rightarrow> Inl err
      | Some (Inr values) \<Rightarrow>
          if length values \<noteq> n
          then Inl (ErrorString (''sql: expected '' @ FormatInt (int (length values))
                     @ '' destination arguments in Scan, not '' @ FormatInt (int n)))
          else Inr values)"

section \<open>\<open>getDSN\<close>\<close>

text \<open>The environment is a function from variable names to values; \<open>os.Getenv\<close> of a
  variable that is not set is the empty string.\<close>

definition PGHOST :: string where "PGHOST = ''DAAS_HOST''"
definition PGPORT :: string where "PGPORT = ''DAAS_PORT''"
definition PGUSER :: string where "PGUSER = ''DAAS_USER''"
definition PGPASSWORD :: string where "PGPASSWORD = ''DAAS_PASS''"
definition PGDATABASE :: string where "PGDATABASE = ''DAAS_DBNAME''"

definition sslmode :: "(string \<Rightarrow> string) \<Rightarrow> string" where
  "sslmode Getenv = (if Contains (Getenv PGHOST) ''localhost'' then ''disable'' else ''require'')"

definition getDSN :: "(string \<Rightarrow> string) \<Rightarrow> string \<Rightarrow> string" where
  "getDSN Getenv appName =
     ''host='' @ Getenv PGHOST @ '' port='' @ Getenv PGPORT @ '' user='' @ Getenv PGUSER
     @ '' password='' @ Getenv PGPASSWORD @ '' dbname='' @ Getenv PGDATABASE
     @ '' sslmode='' @ sslmode Getenv
     @ '' application_name='' @ [CHR 0x27] @ appName @ [CHR 0x27]"

section \<open>\<open>PGNotify\<close>: \<open>CreateChannel\<close>, \<open>Listen\<close> and \<open>Close\<close>\<close>

text \<open>
  A channel of errors, as \<open>make(chan error, n)\<close> makes it: its capacity, its buffer, the
  values of the goroutines blocked in a send (the buffer being full), and whether it has
  been closed. A send on a closed channel panics; a send finds room in the buffer or
  blocks. \<open>close\<close> of a closed channel panics; \<open>close\<close> of a channel on which a goroutine
  is blocked in a send makes that goroutine panic, which ends the program.
\<close>

record chan =
  chan_cap :: nat
  chan_buf :: "error option list"
  chan_sendq :: "error option list"
  chan_closed :: bool

definition make_chan :: "nat \<Rightarrow> chan" where
  "make_chan n = \<lparr>chan_cap = n, chan_buf = [], chan_sendq = [], chan_closed = False\<rparr>"

definition send :: "chan \<Rightarrow> error option \<Rightarrow> chan outcome" where
  "send ch v =
     (if chan_closed ch then Panic ''send on closed channel''
      else if chan_sendq ch = [] \<and> length (chan_buf ch) < chan_cap ch
        then Return (ch\<lparr>chan_buf := chan_buf ch @ [v]\<rparr>)
      else Return (ch\<lparr>chan_sendq := chan_sendq ch @ [v]\<rparr>))"

text \<open>A receive takes the oldest value of the buffer, and the oldest blocked sender, if
  any, puts its value in the room made; \<open>None\<close>: nothing to receive on an open channel, the
  receiver waits.\<close>

definition recv :: "chan \<Rightarrow> (error option \<times> chan) option" where
  "recv ch =
     (case chan_buf ch of
        [] \<Rightarrow> if chan_closed ch then Some (None, ch) else None
      | v # vs \<Rightarrow>
          (case chan_sendq ch of
             [] \<Rightarrow> Some (v, ch\<lparr>chan_buf := vs\<rparr>)
           | w # ws \<Rightarrow> Some (v, ch\<lparr>chan_buf := vs @ [w], chan_sendq := ws\<rparr>)))"

text \<open>
  \<open>pq.Listener\<close>: its \<open>isClosed\<close> flag. \<open>Listener.Close\<close> answers \<open>errListenerClosed\<close> on
  a closed listener and otherwise closes the connection and returns nil;
  \<open>Listener.Listen\<close> answers \<open>errListenerClosed\<close> on a closed listener and otherwise what
  the server answers.
\<close>

record Listener =
  isClosed :: bool

definition errListenerClosed :: error where
  "errListenerClosed = ErrorString ''pq: Listener has been closed''"

definition Listener_Close :: "Listener \<Rightarrow> Listener \<times> error option" where
  "Listener_Close l =
     (if isClosed l then (l, Some errListenerClosed) else (l\<lparr>isClosed := True\<rparr>, None))"

definition Listener_Listen :: "Listener \<Rightarrow> error option \<Rightarrow> error option" where
  "Listener_Listen l answer = (if isClosed l then Some errListenerClosed else answer)"

record PGNotify =
  ln :: "Listener option"
  fail :: "chan option"

datatype ListenerEventType =
    ListenerEventConnected
  | ListenerEventDisconnected
  | ListenerEventReconnected
  | ListenerEventConnectionAttemptFailed

text \<open>
  The callback \<open>CreateChannel\<close> gives the listener (lines 63 to 72), on the channel it
  closes over: it logs the error of the event, if any, and sends on the channel, at every
  event, \<open>err\<close> when the connection attempt failed and nil otherwise.
\<close>

definition listenerCallback ::
  "chan \<Rightarrow> ListenerEventType \<times> error option \<Rightarrow> log \<Rightarrow> chan outcome \<times> log"
where
  "listenerCallback ch ev lg =
     (let lg1 = (case snd ev of
                   None \<Rightarrow> lg
                 | Some e \<Rightarrow> lg @ [Errorf ''Listen:: %s'' [AString (Error e)]])
      in (send ch (if fst ev = ListenerEventConnectionAttemptFailed then snd ev else None), lg1))"

text \<open>
  \<open>CreateChannel\<close>: makes the channel \<open>fail\<close> with room for two errors, starts the
  listener, and waits for what the listener's callback sends for the first event
  \<open>(e, err)\<close>: \<open>err\<close> when the connection attempt failed, nil otherwise. The value is
  received, so the buffer is empty again.
\<close>

definition CreateChannel ::
  "(string \<Rightarrow> string) \<Rightarrow> ListenerEventType \<times> error option \<Rightarrow> log \<Rightarrow> (PGNotify \<times> error option) \<times> log"
where
  "CreateChannel Getenv ev lg =
     (let n = \<lparr>ln = Some \<lparr>isClosed = False\<rparr>, fail = Some (make_chan 2)\<rparr>;
          lg1 = (case snd ev of
                   None \<Rightarrow> lg
                 | Some e \<Rightarrow> lg @ [Errorf ''Listen:: %s'' [AString (Error e)]]);
          err = (if fst ev = ListenerEventConnectionAttemptFailed then snd ev else None)
      in ((n, err),
          lg1 @ [Infof '''listen::%s/%s' Consumed'' [AString (Getenv PGHOST), AString (Getenv PGDATABASE)]]))"

text \<open>
  A later event of the listener: an open listener calls its callback, in its own
  goroutine, on the channel of the notifier; nothing in the package receives from the
  channel after \<open>CreateChannel\<close>. A closed listener sends no event, and a notifier without
  a listener or a channel was not made by \<open>CreateChannel\<close> and has no callback.
\<close>

definition listenerEvent ::
  "PGNotify \<Rightarrow> ListenerEventType \<times> error option \<Rightarrow> log \<Rightarrow> PGNotify outcome \<times> log"
where
  "listenerEvent pg ev lg =
     (case (ln pg, fail pg) of
        (Some l, Some ch) \<Rightarrow>
          if isClosed l then (Return pg, lg)
          else (case listenerCallback ch ev lg of
                  (Return ch', lg') \<Rightarrow> (Return (pg\<lparr>fail := Some ch'\<rparr>), lg')
                | (Panic p, lg') \<Rightarrow> (Panic p, lg'))
      | _ \<Rightarrow> (Return pg, lg))"

text \<open>
  \<open>Listen\<close> (lines 78 to 100), \<open>answer\<close> being what the server answers to the
  subscription: on an error the listener is closed and the error returned; otherwise the
  goroutine that hands the notifications to \<open>eventCallback\<close> is started (it is not part of
  the model) and nil returned.
\<close>

definition Listen ::
  "PGNotify \<Rightarrow> string \<Rightarrow> error option \<Rightarrow> log \<Rightarrow> (PGNotify \<times> error option outcome) \<times> log"
where
  "Listen pg channelName answer lg =
     (let lg1 = lg @ [Infof (''LISTEN channel '%s'' @ [CHR 0x27]) [AString channelName]] in
      case ln pg of
        None \<Rightarrow> ((pg, Panic ''nil pointer dereference''), lg1)
      | Some l \<Rightarrow>
          (case Listener_Listen l answer of
             None \<Rightarrow> ((pg, Return None), lg1)
           | Some err \<Rightarrow> ((pg\<lparr>ln := Some (fst (Listener_Close l))\<rparr>, Return (Some err)), lg1)))"

text \<open>
  \<open>Close\<close> (lines 102 to 105): \<open>close(pg.fail); return pg.ln.Close()\<close>, taken as one step.
  Closing a nil channel or a closed channel panics, and so does the callback blocked in
  its send when the channel is closed under it. The notifier is returned as the call
  leaves it.
\<close>

definition Close :: "PGNotify \<Rightarrow> PGNotify \<times> error option outcome" where
  "Close pg =
     (case fail pg of
        None \<Rightarrow> (pg, Panic ''close of nil channel'')
      | Some ch \<Rightarrow>
          if chan_closed ch then (pg, Panic ''close of closed channel'')
          else
            let pg1 = pg\<lparr>fail := Some (ch\<lparr>chan_closed := True\<rparr>)\<rparr> in
            if chan_sendq ch \<noteq> [] then (pg1, Panic ''send on closed channel'')
            else
              (case ln pg1 of
                 None \<Rightarrow> (pg1, Panic ''nil pointer dereference'')
               | Some l \<Rightarrow> (let (l', err) = Listener_Close l in (pg1\<lparr>ln := Some l'\<rparr>, Return err))))"

section \<open>The typed accessors of \<open>PGRow\<close>\<close>

text \<open>
  Each accessor parses \<open>pg[name]\<close>, logs the error if there is one, and returns the
  value the parser gave, error or not. \<open>strconv.ParseFloat(s, 64)\<close> is the parameter
  \<open>ParseFloat\<close>.
\<close>

definition ToByte :: "PGRow \<Rightarrow> string \<Rightarrow> string" where
  "ToByte pg name = index pg name"

definition ToBoolean :: "PGRow \<Rightarrow> string \<Rightarrow> log \<Rightarrow> bool \<times> log" where
  "ToBoolean pg name lg =
     (let (data, err) = ParseBool (index pg name) in
      (data, case err of
               None \<Rightarrow> lg
             | Some e \<Rightarrow> lg @ [Errorf ''PGRow.ToBoolean('%s'): %s'' [AString name, ANumError e]]))"

definition ToInt64 :: "PGRow \<Rightarrow> string \<Rightarrow> log \<Rightarrow> int64 \<times> log" where
  "ToInt64 pg name lg =
     (let (data, err) = ParseInt (index pg name) in
      (data, case err of
               None \<Rightarrow> lg
             | Some e \<Rightarrow> lg @ [Errorf ''PGRow.ToInt64('%s', 0, 64): %s'' [AString name, ANumError e]]))"

definition ToFloat64 ::
  "(string \<Rightarrow> float64 \<times> NumError option) \<Rightarrow> PGRow \<Rightarrow> string \<Rightarrow> log \<Rightarrow> float64 \<times> log" where
  "ToFloat64 ParseFloat pg name lg =
     (let (data, err) = ParseFloat (index pg name) in
      (data, case err of
               None \<Rightarrow> lg
             | Some e \<Rightarrow> lg @ [Errorf ''PGRow.ToFloat64('%s', 64): %s'' [AString name, ANumError e]]))"

definition ToTime :: "PGRow \<Rightarrow> string \<Rightarrow> log \<Rightarrow> Time \<times> log" where
  "ToTime pg name lg =
     (let (data, err) = Parse (index pg name) in
      (data, case err of
               None \<Rightarrow> lg
             | Some e \<Rightarrow> lg @ [Errorf ''PGRow.ToTime('%s'): %s'' [AString name, AParseError e]]))"

section \<open>\<open>fetchRow\<close>, \<open>FetchRow\<close> and \<open>FetchAll\<close>\<close>

text \<open>
  The type switch of \<open>fetchRow\<close> (lines 298 to 320) on one value: the text stored for the
  column and the log. \<open>fmt.Sprint\<close> of a \<open>float64\<close> is the parameter \<open>Sprint_float64\<close>.
\<close>

fun decodeValue :: "(float64 \<Rightarrow> string) \<Rightarrow> iface \<Rightarrow> log \<Rightarrow> string \<times> log" where
  "decodeValue Sprint_float64 VNil lg = ([], lg)"
| "decodeValue Sprint_float64 (VInt64 v) lg = (Sprint_int64 v, lg)"
| "decodeValue Sprint_float64 (VFloat64 v) lg = (Sprint_float64 v, lg)"
| "decodeValue Sprint_float64 (VString v) lg = (v, lg)"
| "decodeValue Sprint_float64 (VBytes v) lg = (v, lg)"
| "decodeValue Sprint_float64 (VBool v) lg = (Sprintf_t v, lg)"
| "decodeValue Sprint_float64 (VTime v) lg = (Format v, lg)"
| "decodeValue Sprint_float64 (VOther ty) lg = ([], lg @ [Errorf ''Reflect TypeOf: %s '' [AString ty]])"

text \<open>The loop \<open>for i, val := range values\<close>: \<open>resultMap[columns[i]]\<close> is assigned for
  each value in turn; \<open>columns\<close> is as long as \<open>values\<close>.\<close>

fun decodeRow ::
  "(float64 \<Rightarrow> string) \<Rightarrow> string list \<Rightarrow> iface list \<Rightarrow> (string \<rightharpoonup> string) \<Rightarrow> log
     \<Rightarrow> (string \<rightharpoonup> string) \<times> log" where
  "decodeRow Sprint_float64 (c # columns) (val # values) resultMap lg =
     (let (s, lg1) = decodeValue Sprint_float64 val lg in
      decodeRow Sprint_float64 columns values (resultMap(c \<mapsto> s)) lg1)"
| "decodeRow Sprint_float64 columns values resultMap lg = (resultMap, lg)"

definition fetchRow ::
  "(float64 \<Rightarrow> string) \<Rightarrow> sql_Rows \<Rightarrow> log \<Rightarrow> (PGRow \<times> error option) \<times> log" where
  "fetchRow Sprint_float64 rows lg =
     (case rows_Columns rows of
        Inl err \<Rightarrow> ((None, Some (ErrorString (''FetchRow::Columns::'' @ Error err))), lg)
      | Inr columns \<Rightarrow>
          (case Scan rows (length columns) of
             Inl err \<Rightarrow>
               if err = ErrNoRows
               then ((Some Map.empty, Some (ErrorString (''FetchRow::ErrNoRows: '' @ Error err))), lg)
               else ((None, Some (ErrorString (''FetchRow::Scan: '' @ Error err))), lg)
           | Inr values \<Rightarrow>
               (let (resultMap, lg1) = decodeRow Sprint_float64 columns values Map.empty lg in
                ((Some resultMap, None), lg1))))"

definition FetchRow ::
  "(float64 \<Rightarrow> string) \<Rightarrow> sql_Rows \<Rightarrow> log \<Rightarrow> (PGRow \<times> error option) \<times> log" where
  "FetchRow Sprint_float64 rows lg = fetchRow Sprint_float64 rows lg"

text \<open>
  \<open>FetchAll\<close> (lines 245 to 256): \<open>result := []PGRow{}; for rows.Next() { data, err := stx.FetchRow(rows);
  if err != nil { return PGRecord{}, nil }; result = append(result, data) };
  return result, nil\<close>.
\<close>

function FetchAll_loop ::
  "(float64 \<Rightarrow> string) \<Rightarrow> sql_Rows \<Rightarrow> PGRecord \<Rightarrow> log \<Rightarrow> (PGRecord \<times> error option) \<times> log" where
  "FetchAll_loop Sprint_float64 rows result lg =
     (let (more, rows1) = Next rows in
      if \<not> more then ((result, None), lg)
      else
        let ((data, err), lg1) = FetchRow Sprint_float64 rows1 lg in
        if err \<noteq> None then (([], None), lg1)
        else FetchAll_loop Sprint_float64 rows1 (result @ [data]) lg1)"
  by pat_completeness auto
termination
  by (relation "measure (\<lambda>(f, rows, result, lg). length (rows_pending rows))")
     (auto simp: Next_def split: list.splits)

declare FetchAll_loop.simps [simp del]

definition FetchAll ::
  "(float64 \<Rightarrow> string) \<Rightarrow> sql_Rows \<Rightarrow> log \<Rightarrow> (PGRecord \<times> error option) \<times> log" where
  "FetchAll Sprint_float64 rows lg = FetchAll_loop Sprint_float64 rows [] lg"

section \<open>Transactions: \<open>PGClient.Begin\<close>, \<open>PGTx.Commit\<close>, \<open>PGTx.Rollback\<close>\<close>

text \<open>
  \<open>sql_Tx\<close> is the driver's transaction: \<open>tx_done\<close> is the flag \<open>database/sql\<close> keeps
  (a finished transaction answers \<open>sql.ErrTxDone\<close>), the other fields are what the
  server answers to a commit, to a rollback, to a query and to a statement.
\<close>

record sql_Tx =
  tx_done :: bool
  driver_Commit :: "error option"
  driver_Rollback :: "error option"
  driver_Query :: "string \<Rightarrow> iface list \<Rightarrow> error + sql_Rows"
  driver_Exec :: "string \<Rightarrow> iface list \<Rightarrow> error option"

definition ErrTxDone :: error where
  "ErrTxDone = ErrorString ''sql: transaction has already been committed or rolled back''"

definition Tx_Commit :: "sql_Tx \<Rightarrow> sql_Tx \<times> error option" where
  "Tx_Commit t = (if tx_done t then (t, Some ErrTxDone)
                  else (t\<lparr>tx_done := True\<rparr>, driver_Commit t))"

definition Tx_Rollback :: "sql_Tx \<Rightarrow> sql_Tx \<times> error option" where
  "Tx_Rollback t = (if tx_done t then (t, Some ErrTxDone)
                    else (t\<lparr>tx_done := True\<rparr>, driver_Rollback t))"

text \<open>\<open>type PGTx struct { Closed bool; tx *sql.Tx; ctx *context.Context }\<close>;
  a nil pointer is \<open>None\<close>.\<close>

record PGTx =
  Closed :: bool
  tx :: "sql_Tx option"
  ctx :: "go_context option"




text \<open>
  \<open>Commit\<close> (lines 189 to 192; \<open>Rollback\<close>, lines 194 to 197, likewise):
  \<open>stx.Closed = true; return stx.tx.Commit()\<close>. The method mutates the scope
  through its pointer, so the model returns the scope after the call together with the
  outcome; the assignment comes first and survives a panic of the second statement.
\<close>

definition Commit :: "PGTx \<Rightarrow> PGTx \<times> error option outcome" where
  "Commit stx =
     (let stx1 = stx\<lparr>Closed := True\<rparr> in
      case tx stx1 of
        None \<Rightarrow> (stx1, Panic ''nil pointer dereference'')
      | Some t \<Rightarrow> (let (t', err) = Tx_Commit t in (stx1\<lparr>tx := Some t'\<rparr>, Return err)))"

definition Rollback :: "PGTx \<Rightarrow> PGTx \<times> error option outcome" where
  "Rollback stx =
     (let stx1 = stx\<lparr>Closed := True\<rparr> in
      case tx stx1 of
        None \<Rightarrow> (stx1, Panic ''nil pointer dereference'')
      | Some t \<Rightarrow> (let (t', err) = Tx_Rollback t in (stx1\<lparr>tx := Some t'\<rparr>, Return err)))"

section \<open>Queries: \<open>sqlQuery\<close>, \<open>sctxQuery\<close>, \<open>QueryOne\<close>\<close>

definition leadingSpace :: "string \<Rightarrow> nat" where
  "leadingSpace line = length (takeWhile (\<lambda>v. v = CHR '' '' \<or> v = CHR 0x09) line)"

text \<open>
  The first loop of \<open>sqlQuery\<close> (lines 354 to 357): for the argument at index \<open>i\<close>, every match of the
  pattern \<open>\$(i+1)\<close> in the query is replaced by the argument between single quotes. The
  type assertion \<open>arg.(string)\<close> panics on an argument that is not a string.
\<close>

fun substituteArgs :: "nat \<Rightarrow> string \<Rightarrow> iface list \<Rightarrow> string outcome" where
  "substituteArgs i query [] = Return query"
| "substituteArgs i query (arg # args) =
     (case arg of
        VString a \<Rightarrow>
          substituteArgs (i + 1)
            (ReplaceAllString (CHR ''$'' # FormatInt (int i + 1)) query ([CHR 0x27] @ a @ [CHR 0x27]))
            args
      | _ \<Rightarrow>
          Panic (''interface conversion: interface {} is ''
                 @ (case TypeOf arg of None \<Rightarrow> ''nil'' | Some ty \<Rightarrow> ty) @ '', not string''))"

text \<open>The second loop: \<open>lead\<close> is taken from the first of the first two lines that has
  leading space; a line longer than \<open>lead\<close> loses its first \<open>lead - 2\<close> bytes; tabs
  become two spaces.\<close>

fun printLines :: "nat \<Rightarrow> nat \<Rightarrow> string list \<Rightarrow> log" where
  "printLines i lead [] = []"
| "printLines i lead (line # lines) =
     (let lead1 = (if i < 2 \<and> lead = 0 then leadingSpace line else lead);
          line1 = (if length line > lead1 \<and> lead1 > 1 then drop (lead1 - 2) line else line)
      in Println (ReplaceAll line1 [CHR 0x09] ''  '') # printLines (i + 1) lead1 lines)"

definition sqlQuery :: "int \<Rightarrow> string \<Rightarrow> iface list \<Rightarrow> log \<Rightarrow> unit outcome \<times> log" where
  "sqlQuery ms query args lg =
     (case substituteArgs 0 query args of
        Panic p \<Rightarrow> (Panic p, lg)
      | Return q \<Rightarrow>
          (Return (),
           lg @ [Printf (''[Query]'' @ [CHR 0x0A])]
              @ printLines 0 0 (Split (ReplaceAll q [CHR 0x0D, CHR 0x0A] [CHR 0x0A]))
              @ [Printf ([CHR 0x0A] @ ''Elapsed time '' @ FormatInt ms @ '' ms estimated.''),
                 Printf ([CHR 0x0A] @ ''[Query]'')]))"

text \<open>
  \<open>sctxQuery\<close> (lines 324 to 336): the query runs through \<open>pgstx.QueryContext(*pgctx, query, args...)\<close> with
  the query text and the arguments as given. The deferred calls run when the function
  leaves, also by a panic: \<open>EstimatedPrint\<close> first, then \<open>sqlQuery\<close> if \<open>envDebug\<close>; a panic
  of \<open>sqlQuery\<close> replaces the result.
\<close>

definition QueryContext :: "sql_Tx \<Rightarrow> string \<Rightarrow> iface list \<Rightarrow> error + sql_Rows" where
  "QueryContext t query args = (if tx_done t then Inl ErrTxDone else driver_Query t query args)"

definition sctxQuery ::
  "sql_Tx option \<Rightarrow> go_context option \<Rightarrow> bool \<Rightarrow> int \<Rightarrow> string \<Rightarrow> iface list \<Rightarrow> log
     \<Rightarrow> (sql_Rows option \<times> error option) outcome \<times> log" where
  "sctxQuery pgstx pgctx envDebug ms query args lg =
     (let body =
            (case pgctx of
               None \<Rightarrow> Panic ''nil pointer dereference''
             | Some c \<Rightarrow>
                 (case pgstx of
                    None \<Rightarrow> Panic ''nil pointer dereference''
                  | Some t \<Rightarrow>
                      (case QueryContext t query args of
                         Inl err \<Rightarrow> Return (None, Some err)
                       | Inr rows \<Rightarrow> Return (Some rows, None))));
          lg1 = lg @ [EstimatedPrint ''Query'']
      in
      if envDebug then
        (case sqlQuery ms query args lg1 of
           (Panic p, lg2) \<Rightarrow> (Panic p, lg2)
         | (Return u, lg2) \<Rightarrow> (body, lg2))
      else (body, lg1))"

text \<open>
  \<open>QueryOne\<close> (lines 199 to 210) and \<open>QueryOnePrint\<close> (lines 212 to 223) differ in the
  \<open>envDebug\<close> flag they pass only: \<open>queryOne\<close> is their common body. A driver error comes
  back as \<open>fmt.Errorf("QueryOne::%s", err.Error())\<close>, no row as
  \<open>fmt.Errorf("empty record")\<close>, and a row goes through \<open>fetchRow\<close>.
\<close>

definition queryOne ::
  "bool \<Rightarrow> (float64 \<Rightarrow> string) \<Rightarrow> PGTx \<Rightarrow> int \<Rightarrow> string \<Rightarrow> iface list \<Rightarrow> log
     \<Rightarrow> (PGRow \<times> error option) outcome \<times> log" where
  "queryOne envDebug Sprint_float64 stx ms query args lg =
     (case sctxQuery (tx stx) (ctx stx) envDebug ms query args lg of
        (Panic p, lg1) \<Rightarrow> (Panic p, lg1)
      | (Return (rows, Some err), lg1) \<Rightarrow>
          (Return (None, Some (ErrorString (''QueryOne::'' @ Error err))), lg1)
      | (Return (None, None), lg1) \<Rightarrow> (Panic ''nil pointer dereference'', lg1)
      | (Return (Some rows, None), lg1) \<Rightarrow>
          (let (more, rows1) = Next rows in
           if \<not> more then (Return (None, Some (ErrorString ''empty record'')), lg1)
           else (let (r, lg2) = fetchRow Sprint_float64 rows1 lg1 in (Return r, lg2))))"

definition QueryOne ::
  "(float64 \<Rightarrow> string) \<Rightarrow> PGTx \<Rightarrow> int \<Rightarrow> string \<Rightarrow> iface list \<Rightarrow> log
     \<Rightarrow> (PGRow \<times> error option) outcome \<times> log" where
  "QueryOne = queryOne False"

definition QueryOnePrint ::
  "(float64 \<Rightarrow> string) \<Rightarrow> PGTx \<Rightarrow> int \<Rightarrow> string \<Rightarrow> iface list \<Rightarrow> log
     \<Rightarrow> (PGRow \<times> error option) outcome \<times> log" where
  "QueryOnePrint = queryOne True"

definition Query ::
  "PGTx \<Rightarrow> int \<Rightarrow> string \<Rightarrow> iface list \<Rightarrow> log \<Rightarrow> (sql_Rows option \<times> error option) outcome \<times> log" where
  "Query stx ms query args lg = sctxQuery (tx stx) (ctx stx) False ms query args lg"






section \<open>Notions and example inputs used in the statements\<close>

text \<open>A row \<open>r\<close> of the cursor fails to decode when \<open>FetchRow\<close>, called with \<open>r\<close> the
  current row, returns an error.\<close>

definition decodeFails :: "(float64 \<Rightarrow> string) \<Rightarrow> sql_Rows \<Rightarrow> (error + iface list) \<Rightarrow> bool" where
  "decodeFails Sprint_float64 rows r =
     (snd (fst (FetchRow Sprint_float64 (rows\<lparr>rows_current := Some r, rows_pending := []\<rparr>) [])) \<noteq> None)"

definition panics :: "'a outcome \<Rightarrow> bool" where
  "panics out = (case out of Panic p \<Rightarrow> True | Return x \<Rightarrow> False)"

text \<open>A cursor of three rows whose second row fails in \<open>Scan\<close>.\<close>

definition exRows :: sql_Rows where
  "exRows = \<lparr>rows_Columns = Inr [''id''], rows_current = None,
      rows_pending = [Inr [VInt64 1], Inl (ErrorString ''bad connection''), Inr [VInt64 3]]\<rparr>"

text \<open>A current row with an integer, a null and a value of a type \<open>fetchRow\<close> does not
  know.\<close>

definition exRow :: sql_Rows where
  "exRow = \<lparr>rows_Columns = Inr [''id'', ''name'', ''tags''],
      rows_current = Some (Inr [VInt64 7, VNil, VOther ''[]interface {}'']),
      rows_pending = []\<rparr>"

text \<open>A transaction whose queries find no rows, and a scope on it.\<close>

definition emptyRows :: sql_Rows where
  "emptyRows = \<lparr>rows_Columns = Inr [''id''], rows_current = None, rows_pending = []\<rparr>"

definition exTx :: sql_Tx where
  "exTx = \<lparr>tx_done = False, driver_Commit = None, driver_Rollback = None,
           driver_Query = (\<lambda>q a. Inr emptyRows), driver_Exec = (\<lambda>q a. None)\<rparr>"

definition exScope :: PGTx where
  "exScope = \<lparr>Closed = False, tx = Some exTx, ctx = Some Background\<rparr>"



text \<open>An environment whose host is the IPv4 loopback address.\<close>

definition envLoopback :: "string \<Rightarrow> string" where
  "envLoopback v =
     (if v = ''DAAS_HOST'' then ''127.0.0.1''
      else if v = ''DAAS_PORT'' then ''5432''
      else if v = ''DAAS_USER'' then ''u''
      else if v = ''DAAS_PASS'' then ''p''
      else if v = ''DAAS_DBNAME'' then ''d''
      else [])"

text \<open>A notifier as \<open>CreateChannel\<close> returns it; the same after a \<open>Listen\<close> that the
  server refused; and the same after the server went away and two attempts to reach it
  again failed.\<close>

definition exNotify :: PGNotify where
  "exNotify = fst (fst (CreateChannel envLoopback (ListenerEventConnected, None) []))"

definition exRefused :: PGNotify where
  "exRefused = fst (fst (Listen exNotify ''jobs'' (Some (ErrorString ''pq: permission denied'')) []))"

definition exEOF :: error where
  "exEOF = ErrorString ''EOF''"

fun exEvents :: "PGNotify outcome \<Rightarrow> (ListenerEventType \<times> error option) list \<Rightarrow> PGNotify outcome" where
  "exEvents out [] = out"
| "exEvents (Panic p) (ev # evs) = Panic p"
| "exEvents (Return pg) (ev # evs) = exEvents (fst (listenerEvent pg ev [])) evs"

definition exUnreachable :: "PGNotify outcome" where
  "exUnreachable =
     exEvents (Return exNotify)
       [(ListenerEventDisconnected, Some exEOF),
        (ListenerEventConnectionAttemptFailed, Some exEOF),
        (ListenerEventConnectionAttemptFailed, Some exEOF)]"

section \<open>Properties\<close>

subsection \<open>Transactions\<close>

text \<open>
  C3. After \<open>Commit()\<close> or \<open>Rollback()\<close> the scope's \<open>Closed\<close> flag is true, whatever the
  flag was before and whatever the underlying commit or rollback does: succeed, return
  an error, or panic on a nil transaction.
\<close>

theorem Commit_Rollback_Closed:
  "Closed (fst (Commit stx)) = True \<and> Closed (fst (Rollback stx)) = True"
  by (simp add: Commit_def Rollback_def Let_def split: option.split prod.split)



subsection \<open>Rows\<close>

lemma fetchRow_error_independent:
  "snd (fst (fetchRow ff (rows\<lparr>rows_current := Some r, rows_pending := ps\<rparr>) lg))
   = snd (fst (fetchRow ff (rows\<lparr>rows_current := Some r, rows_pending := []\<rparr>) []))"
  by (auto simp: fetchRow_def Scan_def split: sum.splits prod.splits)

lemma FetchAll_loop_fails:
  "\<exists>r \<in> set (rows_pending rows). decodeFails ff rows r \<Longrightarrow>
   fst (FetchAll_loop ff rows result lg) = ([], None)"
proof (induction ff rows result lg rule: FetchAll_loop.induct)
  case (1 ff rows result lg)
  from "1.prems" obtain r rs where ps: "rows_pending rows = r # rs"
    by (cases "rows_pending rows") auto
  let ?rows1 = "rows\<lparr>rows_current := Some r, rows_pending := rs\<rparr>"
  have nx: "Next rows = (True, ?rows1)" by (simp add: Next_def ps)
  obtain data err lg1 where fr: "FetchRow ff ?rows1 lg = ((data, err), lg1)"
    by (metis prod.exhaust)
  show ?case
  proof (cases "err = None")
    case False
    then show ?thesis
      by (subst FetchAll_loop.simps) (simp add: nx fr)
  next
    case True
    have "\<not> decodeFails ff rows r"
      using True fr fetchRow_error_independent[where ff=ff and rows=rows and r=r and ps=rs and lg=lg]
      by (simp add: decodeFails_def FetchRow_def)
    with "1.prems" ps have ex: "\<exists>r' \<in> set rs. decodeFails ff rows r'" by auto
    have same: "\<And>r'. decodeFails ff ?rows1 r' = decodeFails ff rows r'"
      by (simp add: decodeFails_def)
    have "fst (FetchAll_loop ff ?rows1 (result @ [data]) lg1) = ([], None)"
    proof (rule "1.IH"[where x="Next rows" and xa=True and y="?rows1"
          and xb="FetchRow ff ?rows1 lg" and xc="(data, err)" and ya=lg1 and xd=data and yaa=err])
      show "\<exists>a\<in>set (rows_pending ?rows1). decodeFails ff ?rows1 a"
        using ex same by simp
    qed (simp_all add: nx fr True)
    then show ?thesis
      by (subst FetchAll_loop.simps) (simp add: nx fr True)
  qed
qed

text \<open>
  C1. If any of the rows still to come fails to decode, \<open>FetchAll\<close> returns the empty
  \<open>PGRecord\<close> and a nil error: the rows decoded before the failure are dropped and the
  decode error is not returned.
\<close>

theorem FetchAll_decode_failure:
  "\<exists>r \<in> set (rows_pending rows). decodeFails Sprint_float64 rows r \<Longrightarrow>
   fst (FetchAll Sprint_float64 rows lg) = ([], None)"
  unfolding FetchAll_def by (rule FetchAll_loop_fails)

theorem FetchAll_decode_failure_witness:
  "(\<exists>r \<in> set (rows_pending exRows). decodeFails (\<lambda>v. []) exRows r)
   \<and> fst (FetchAll (\<lambda>v. []) exRows []) = ([], None)"
proof -
  have h: "\<exists>r \<in> set (rows_pending exRows). decodeFails (\<lambda>v. []) exRows r"
    by (simp add: exRows_def decodeFails_def FetchRow_def fetchRow_def Scan_def)
  show ?thesis using h FetchAll_decode_failure[OF h] by simp
qed

lemma decodeValue_text:
  "fst (decodeValue ff v lg) =
     (case v of VNil \<Rightarrow> [] | VInt64 n \<Rightarrow> FormatInt (sint n) | VFloat64 x \<Rightarrow> ff x
      | VString s \<Rightarrow> s | VBytes b \<Rightarrow> b | VBool b \<Rightarrow> (if b then ''true'' else ''false'')
      | VTime t \<Rightarrow> Format t | VOther ty \<Rightarrow> [])"
  by (cases v) (simp_all add: Sprint_int64_def Sprintf_t_def)

lemma decodeValue_log:
  "snd (decodeValue ff v lg) =
     lg @ (case v of VOther ty \<Rightarrow> [Errorf ''Reflect TypeOf: %s '' [AString ty]] | _ \<Rightarrow> [])"
  by (cases v) simp_all

lemma decodeRow_dom:
  "length cs = length vs \<Longrightarrow> dom (fst (decodeRow ff cs vs m lg)) = dom m \<union> set cs"
  by (induction cs vs arbitrary: m lg rule: list_induct2) (auto simp: split_beta)

lemma decodeRow_log:
  "length cs = length vs \<Longrightarrow>
   snd (decodeRow ff cs vs m lg) =
     lg @ concat (map (\<lambda>v. case v of VOther ty \<Rightarrow> [Errorf ''Reflect TypeOf: %s '' [AString ty]] | _ \<Rightarrow> []) vs)"
  by (induction cs vs arbitrary: m lg rule: list_induct2) (simp_all add: split_beta decodeValue_log)

lemma decodeRow_keep:
  "c \<notin> set cs \<Longrightarrow> fst (decodeRow ff cs vs m lg) c = m c"
  by (induction ff cs vs m lg rule: decodeRow.induct) (auto simp: split_beta)

lemma decodeRow_value:
  "length cs = length vs \<Longrightarrow> i < length cs \<Longrightarrow> cs ! i \<notin> set (drop (Suc i) cs) \<Longrightarrow>
   fst (decodeRow ff cs vs m lg) (cs ! i) = Some (fst (decodeValue ff (vs ! i) []))"
proof (induction cs vs arbitrary: m lg i rule: list_induct2)
  case Nil
  then show ?case by simp
next
  case (Cons c cs v vs)
  show ?case
  proof (cases i)
    case 0
    with Cons.prems have "c \<notin> set cs" by simp
    then show ?thesis
      using 0 decodeValue_text[of ff v lg] decodeValue_text[of ff v "[]"]
      by (simp add: split_beta decodeRow_keep)
  next
    case (Suc j)
    with Cons.prems have "j < length cs" "cs ! j \<notin> set (drop (Suc j) cs)" by simp_all
    then show ?thesis
      using Suc Cons.IH by (simp add: split_beta)
  qed
qed

text \<open>
  C5. When \<open>Columns\<close> and \<open>Scan\<close> succeed, \<open>fetchRow\<close> returns a row and no error. The
  row's keys are exactly the result columns. The value under a column name is the text
  of that column's value (of the last such column, should a name occur twice): decimal
  for an \<open>int64\<close>, the default format for a \<open>float64\<close>, \<open>true\<close> or \<open>false\<close> for a \<open>bool\<close>,
  the bytes themselves for \<open>[]uint8\<close>, the string itself, RFC 3339 with nanoseconds for
  a time, and the empty string for a null and for a value of any other type. Each value
  of another type adds one error to the log, naming the type, and nothing else is
  logged; the other columns are not affected.
\<close>

theorem fetchRow_decodes_every_column:
  assumes "rows_Columns rows = Inr columns"
    and "rows_current rows = Some (Inr values)"
    and "length values = length columns"
  shows "\<exists>m. fetchRow Sprint_float64 rows lg =
            ((Some m, None),
             lg @ concat (map (\<lambda>v. case v of VOther ty \<Rightarrow> [Errorf ''Reflect TypeOf: %s '' [AString ty]]
                                      | _ \<Rightarrow> []) values))
          \<and> dom m = set columns
          \<and> (\<forall>i < length columns. columns ! i \<notin> set (drop (Suc i) columns) \<longrightarrow>
                m (columns ! i) = Some
                  (case values ! i of
                     VNil \<Rightarrow> []
                   | VInt64 n \<Rightarrow> FormatInt (sint n)
                   | VFloat64 x \<Rightarrow> Sprint_float64 x
                   | VString s \<Rightarrow> s
                   | VBytes b \<Rightarrow> b
                   | VBool b \<Rightarrow> (if b then ''true'' else ''false'')
                   | VTime t \<Rightarrow> Format t
                   | VOther ty \<Rightarrow> []))"
proof -
  have len: "length columns = length values" using assms(3) by simp
  obtain m lg1 where d: "decodeRow Sprint_float64 columns values Map.empty lg = (m, lg1)"
    by (metis prod.exhaust)
  have fr: "fetchRow Sprint_float64 rows lg = ((Some m, None), lg1)"
    using assms d by (simp add: fetchRow_def Scan_def)
  have l: "lg1 = lg @ concat (map (\<lambda>v. case v of VOther ty \<Rightarrow> [Errorf ''Reflect TypeOf: %s '' [AString ty]]
                                      | _ \<Rightarrow> []) values)"
    using decodeRow_log[OF len, of Sprint_float64 Map.empty lg] d by simp
  have dm: "dom m = set columns"
    using decodeRow_dom[OF len, of Sprint_float64 Map.empty lg] d by simp
  have v: "\<And>i. i < length columns \<Longrightarrow> columns ! i \<notin> set (drop (Suc i) columns) \<Longrightarrow>
             m (columns ! i) = Some (fst (decodeValue Sprint_float64 (values ! i) []))"
    using decodeRow_value[OF len, of _ Sprint_float64 Map.empty lg] d by simp
  show ?thesis
    using fr l dm v by (simp add: decodeValue_text)
qed

theorem fetchRow_decodes_every_column_witness:
  "rows_Columns exRow = Inr [''id'', ''name'', ''tags'']
   \<and> rows_current exRow = Some (Inr [VInt64 7, VNil, VOther ''[]interface {}''])
   \<and> (\<exists>m. fetchRow (\<lambda>x. []) exRow [] =
             ((Some m, None), [Errorf ''Reflect TypeOf: %s '' [AString ''[]interface {}'']])
          \<and> dom m = {''id'', ''name'', ''tags''}
          \<and> m ''id'' = Some ''7'' \<and> m ''name'' = Some [] \<and> m ''tags'' = Some [])"
proof -
  let ?cs = "[''id'', ''name'', ''tags'']"
  let ?vs = "[VInt64 7, VNil, VOther ''[]interface {}'']"
  have h1: "rows_Columns exRow = Inr ?cs"
    and h2: "rows_current exRow = Some (Inr ?vs)"
    and h3: "length ?vs = length ?cs"
    by (simp_all add: exRow_def)
  from fetchRow_decodes_every_column[OF h1 h2 h3, of "\<lambda>x. []" "[]"]
  obtain m where fr: "fetchRow (\<lambda>x. []) exRow [] =
             ((Some m, None), [Errorf ''Reflect TypeOf: %s '' [AString ''[]interface {}'']])"
    and dm: "dom m = set ?cs"
    and vals: "\<forall>i < length ?cs. ?cs ! i \<notin> set (drop (Suc i) ?cs) \<longrightarrow>
                m (?cs ! i) = Some
                  (case ?vs ! i of
                     VNil \<Rightarrow> []
                   | VInt64 n \<Rightarrow> FormatInt (sint n)
                   | VFloat64 x \<Rightarrow> []
                   | VString s \<Rightarrow> s
                   | VBytes b \<Rightarrow> b
                   | VBool b \<Rightarrow> (if b then ''true'' else ''false'')
                   | VTime t \<Rightarrow> Format t
                   | VOther ty \<Rightarrow> [])"
    by auto
  have "m ''id'' = Some ''7''"
    using vals[rule_format, of 0] by (simp add: FormatInt_def digits10.simps digit_char_def)
  moreover have "m ''name'' = Some []"
    using vals[rule_format, of 1] by simp
  moreover have "m ''tags'' = Some []"
    using vals[rule_format, of 2] by simp
  ultimately show ?thesis
    using h1 h2 fr dm by auto
qed

subsection \<open>\<open>QueryOne\<close> and \<open>QueryOnePrint\<close>\<close>

text \<open>
  \<open>QueryOne\<close> on a live scope: a query that finds no rows gives the nil row and the
  error \<open>empty record\<close>; an error of the driver is returned with the prefix
  \<open>QueryOne::\<close>, which is never the error \<open>empty record\<close>.
\<close>

lemma QueryOne_empty_record:
  assumes "tx stx = Some t" and "ctx stx = Some c"
    and "QueryContext t query args = Inr rows" and "rows_pending rows = []"
  shows "QueryOne Sprint_float64 stx ms query args lg
         = (Return (None, Some (ErrorString ''empty record'')), lg @ [EstimatedPrint ''Query''])"
  using assms
  by (simp add: QueryOne_def queryOne_def sctxQuery_def Next_def Let_def)

lemma QueryOne_driver_error:
  assumes "tx stx = Some t" and "ctx stx = Some c"
    and "QueryContext t query args = Inl err"
  shows "fst (QueryOne Sprint_float64 stx ms query args lg)
           = Return (None, Some (ErrorString (''QueryOne::'' @ Error err)))
     \<and> ErrorString (''QueryOne::'' @ Error err) \<noteq> ErrorString ''empty record''"
  using assms
  by (simp add: QueryOne_def queryOne_def sctxQuery_def Next_def Let_def)

text \<open>Whatever the query and the scope, a nil row never comes with a nil error.\<close>

lemma fetchRow_never_nil_nil:
  "fst (fetchRow ff rows lg) \<noteq> (None, None)"
  by (auto simp: fetchRow_def split: sum.splits prod.splits)

lemma queryOne_never_nil_row_nil_error:
  "fst (queryOne envDebug ff stx ms query args lg) \<noteq> Return (None, None)"
proof -
  have "\<And>rows1 lg1. fst (fetchRow ff rows1 lg1) \<noteq> (None, None)"
    by (rule fetchRow_never_nil_nil)
  then show ?thesis
    by (auto simp: queryOne_def split: prod.splits outcome.splits option.splits)
       (metis fst_conv option.exhaust)
qed

text \<open>\<open>QueryOnePrint\<close> does the same when every argument is a string.\<close>

lemma substituteArgs_strings:
  "\<forall>a \<in> set args. \<exists>s. a = VString s \<Longrightarrow> \<exists>q. substituteArgs i query args = Return q"
  by (induction args arbitrary: i query) auto

lemma QueryOnePrint_empty_record:
  assumes "tx stx = Some t" and "ctx stx = Some c"
    and "QueryContext t query args = Inr rows" and "rows_pending rows = []"
    and "\<forall>a \<in> set args. \<exists>s. a = VString s"
  shows "fst (QueryOnePrint Sprint_float64 stx ms query args lg)
         = Return (None, Some (ErrorString ''empty record''))"
proof -
  obtain q where "substituteArgs 0 query args = Return q"
    using substituteArgs_strings[OF assms(5)] by blast
  then show ?thesis
    using assms(1-4)
    by (simp add: QueryOnePrint_def queryOne_def sctxQuery_def sqlQuery_def Next_def Let_def)
qed

text \<open>
  C2. The claim: for every query whose result set is empty, \<open>QueryOne\<close> and
  \<open>QueryOnePrint\<close> return a nil row and the error \<open>empty record\<close>. \<open>QueryOnePrint\<close> with
  an argument that is not a string does not return: the query finds no rows, and the
  deferred \<open>sqlQuery\<close> panics in \<open>arg.(string)\<close>. \<open>QueryOne\<close> on the same input returns the
  error \<open>empty record\<close>.
\<close>

theorem QueryOnePrint_int_argument_panics:
  "fst (QueryOnePrint (\<lambda>v. []) exScope 0 ''SELECT id FROM t WHERE id = $1'' [VInt64 42] [])
     = Panic ''interface conversion: interface {} is int64, not string''
   \<and> fst (QueryOne (\<lambda>v. []) exScope 0 ''SELECT id FROM t WHERE id = $1'' [VInt64 42] [])
     = Return (None, Some (ErrorString ''empty record''))"
  by (simp add: QueryOnePrint_def QueryOne_def queryOne_def sctxQuery_def QueryContext_def
        sqlQuery_def exScope_def exTx_def emptyRows_def Next_def Let_def)

subsection \<open>The connection descriptor\<close>

lemma take_eq_iff_prefix: "(take (length sub) s = sub) = (\<exists>post. s = sub @ post)"
  by (metis append_eq_conv_conj append_take_drop_id)

lemma Contains_iff: "Contains s sub = (\<exists>pre post. s = pre @ sub @ post)"
proof (induction s)
  case Nil
  then show ?case by auto
next
  case (Cons c cs)
  have "(\<exists>pre post. c # cs = pre @ sub @ post)
        = ((\<exists>post. c # cs = sub @ post) \<or> (\<exists>pre post. cs = pre @ sub @ post))"
  proof
    assume "\<exists>pre post. c # cs = pre @ sub @ post"
    then obtain pre post where e: "c # cs = pre @ sub @ post" by blast
    show "(\<exists>post. c # cs = sub @ post) \<or> (\<exists>pre post. cs = pre @ sub @ post)"
    proof (cases pre)
      case Nil
      with e show ?thesis by auto
    next
      case (Cons p ps)
      with e have "cs = ps @ sub @ post" by simp
      then show ?thesis by blast
    qed
  next
    assume "(\<exists>post. c # cs = sub @ post) \<or> (\<exists>pre post. cs = pre @ sub @ post)"
    then show "\<exists>pre post. c # cs = pre @ sub @ post"
    proof
      assume "\<exists>post. c # cs = sub @ post"
      then obtain post where "c # cs = [] @ sub @ post" by auto
      then show ?thesis by blast
    next
      assume "\<exists>pre post. cs = pre @ sub @ post"
      then obtain pre post where "c # cs = (c # pre) @ sub @ post" by auto
      then show ?thesis by blast
    qed
  qed
  then show ?case
    using Cons.IH take_eq_iff_prefix[of sub "c # cs"] by simp
qed

text \<open>
  C6, as the code has it. The descriptor's SSL mode is \<open>disable\<close> if and only if the
  text \<open>localhost\<close> occurs in the configured host, and \<open>require\<close> otherwise; the host is
  not resolved.
\<close>

theorem getDSN_sslmode:
  "getDSN Getenv appName =
     ''host='' @ Getenv PGHOST @ '' port='' @ Getenv PGPORT @ '' user='' @ Getenv PGUSER
     @ '' password='' @ Getenv PGPASSWORD @ '' dbname='' @ Getenv PGDATABASE
     @ '' sslmode=''
     @ (if \<exists>pre post. Getenv PGHOST = pre @ ''localhost'' @ post then ''disable'' else ''require'')
     @ '' application_name='' @ [CHR 0x27] @ appName @ [CHR 0x27]"
  by (simp add: getDSN_def sslmode_def Contains_iff)

text \<open>
  C6, as the claim has it, fails: with the loopback address \<open>127.0.0.1\<close> as host the
  mode is \<open>require\<close>.
\<close>

theorem getDSN_loopback_address_requires_ssl:
  "getDSN envLoopback ''app'' =
     ''host=127.0.0.1 port=5432 user=u password=p dbname=d sslmode=require application_name=''
     @ [CHR 0x27] @ ''app'' @ [CHR 0x27]"
  by (simp add: getDSN_def sslmode_def envLoopback_def PGHOST_def PGPORT_def PGUSER_def
        PGPASSWORD_def PGDATABASE_def)

subsection \<open>The notification channel\<close>

text \<open>The notifier and the error of \<open>CreateChannel\<close> are what the callback sends at the
  first event and \<open>CreateChannel\<close> receives.\<close>

lemma CreateChannel_receives_first_event:
  "\<exists>ch1 lg1. listenerCallback (make_chan 2) ev lg = (Return ch1, lg1)
     \<and> recv ch1 = Some (snd (fst (CreateChannel Getenv ev lg)), make_chan 2)
     \<and> fst (fst (CreateChannel Getenv ev lg)) = \<lparr>ln = Some \<lparr>isClosed = False\<rparr>, fail = Some (make_chan 2)\<rparr>
     \<and> snd (CreateChannel Getenv ev lg) =
         lg1 @ [Infof '''listen::%s/%s' Consumed'' [AString (Getenv PGHOST), AString (Getenv PGDATABASE)]]"
  by (simp add: listenerCallback_def CreateChannel_def send_def recv_def make_chan_def Let_def)

text \<open>Whenever a first \<open>Close()\<close> returns, with nil or with an error, a second one panics,
  closing the closed channel.\<close>

lemma Close_twice_panics:
  "snd (Close pg) = Return r \<Longrightarrow> snd (Close (fst (Close pg))) = Panic ''close of closed channel''"
  by (auto simp add: Close_def Listener_Close_def Let_def split: option.splits if_splits prod.splits)

text \<open>
  C8, as the code has it. On a notifier whose signal channel is open with no callback
  blocked in a send on it, and whose listener is open, \<open>Close()\<close> returns nil, having closed
  the channel \<open>fail\<close> and the listener; a second \<open>Close()\<close> panics, closing the closed
  channel.
\<close>

theorem Close_once_then_panic:
  assumes "fail pg = Some ch" and "\<not> chan_closed ch" and "chan_sendq ch = []"
    and "ln pg = Some l" and "\<not> isClosed l"
  shows "snd (Close pg) = Return None
       \<and> fail (fst (Close pg)) = Some (ch\<lparr>chan_closed := True\<rparr>)
       \<and> ln (fst (Close pg)) = Some (l\<lparr>isClosed := True\<rparr>)
       \<and> snd (Close (fst (Close pg))) = Panic ''close of closed channel''"
  using assms by (simp add: Close_def Listener_Close_def Let_def)

theorem Close_once_then_panic_witness:
  "fail exNotify = Some (make_chan 2)
    \<and> ln exNotify = Some \<lparr>isClosed = False\<rparr>
    \<and> snd (Close exNotify) = Return None
    \<and> fail (fst (Close exNotify)) = Some ((make_chan 2)\<lparr>chan_closed := True\<rparr>)
    \<and> ln (fst (Close exNotify)) = Some \<lparr>isClosed = True\<rparr>
    \<and> snd (Close (fst (Close exNotify))) = Panic ''close of closed channel''"
proof -
  have h1: "fail exNotify = Some (make_chan 2)"
    and h2: "\<not> chan_closed (make_chan 2)"
    and h3: "chan_sendq (make_chan 2) = []"
    and h4: "ln exNotify = Some \<lparr>isClosed = False\<rparr>"
    and h5: "\<not> isClosed \<lparr>isClosed = False\<rparr>"
    by (simp_all add: exNotify_def CreateChannel_def make_chan_def Let_def)
  from Close_once_then_panic[OF h1 h2 h3 h4 h5] show ?thesis
    using h1 h4 by simp
qed

text \<open>
  C8, as the claim has it, fails: a single \<open>Close()\<close> does not succeed on every notifier
  the package makes. After a \<open>Listen\<close> that the server refused, \<open>Listen\<close> has closed the
  listener, and the one \<open>Close()\<close> returns the error of a closed listener. After three
  events that nothing received (the server gone, two attempts to reach it failed), the
  callback is blocked in its send, and the one \<open>Close()\<close> makes it panic.
\<close>

theorem Close_once_fails:
  "snd (fst (Listen exNotify ''jobs'' (Some (ErrorString ''pq: permission denied'')) []))
      = Return (Some (ErrorString ''pq: permission denied''))
   \<and> ln exRefused = Some \<lparr>isClosed = True\<rparr>
   \<and> fail exRefused = Some (make_chan 2)
   \<and> snd (Close exRefused) = Return (Some errListenerClosed)
   \<and> exUnreachable =
        Return \<lparr>ln = Some \<lparr>isClosed = False\<rparr>,
                fail = Some \<lparr>chan_cap = 2, chan_buf = [None, Some exEOF], chan_sendq = [Some exEOF],
                              chan_closed = False\<rparr>\<rparr>
   \<and> snd (Close \<lparr>ln = Some \<lparr>isClosed = False\<rparr>,
                  fail = Some \<lparr>chan_cap = 2, chan_buf = [None, Some exEOF], chan_sendq = [Some exEOF],
                                chan_closed = False\<rparr>\<rparr>)
        = Panic ''send on closed channel''"
  by (simp add: exRefused_def exNotify_def exUnreachable_def Listen_def Listener_Listen_def
      Listener_Close_def CreateChannel_def Close_def listenerEvent_def listenerCallback_def
      send_def make_chan_def Let_def)

subsection \<open>Decimal digits\<close>

lemma isDigitChar_digit_char [simp]: "isDigitChar (digit_char d)"
proof -
  have "d mod 10 \<in> {0,1,2,3,4,5,6,7,8,9}" by (simp, arith)
  then show ?thesis
    by (auto simp: isDigitChar_def digit_char_def ord_def)
qed

lemma digitVal_digit_char [simp]: "digitVal (digit_char d) = int (d mod 10)"
proof -
  have "d mod 10 \<in> {0,1,2,3,4,5,6,7,8,9}" by (simp, arith)
  then show ?thesis
    by (auto simp: digitVal_def digit_char_def ord_def)
qed

lemma digit_char_not_symbols [simp]:
  "digit_char d \<noteq> CHR ''-''" "digit_char d \<noteq> CHR ''+''" "digit_char d \<noteq> CHR ''_''"
  "digit_char d \<noteq> CHR ''.''" "digit_char d \<noteq> CHR '',''" "digit_char d \<noteq> CHR ''Z''"
  using isDigitChar_digit_char[of d]
  by (auto simp: isDigitChar_def ord_def simp del: isDigitChar_digit_char)


lemma decimal_Nil [simp]: "decimal [] = 0"
  by (simp add: decimal_def)







lemma isDigitChar_zero [simp]: "isDigitChar CHR ''0''"
  by (simp add: isDigitChar_def ord_def)






lemma skip_Cons [simp]: "skip (c # rest) c = Some rest"
  by (simp add: skip_def)













subsection \<open>Calendar arithmetic\<close>












subsection \<open>\<open>Parse\<close> after \<open>Format\<close>\<close>










subsection \<open>Decoding and the typed accessors\<close>




subsection \<open>The accessors on a parse error\<close>

lemma ParseInt_error_value:
  "ParseInt s = (v, Some e) \<Longrightarrow>
     (e = NumError ''ParseInt'' s ErrSyntax \<and> v = 0)
   \<or> (e = NumError ''ParseInt'' s ErrRange
        \<and> v = (if s ! 0 = CHR ''-'' then - 9223372036854775808 else 9223372036854775807))"
  by (auto simp: ParseInt_def Let_def split: if_splits prod.splits)

text \<open>
  C9, as the code has it. No accessor fails the call. On success it returns the parsed
  value and logs nothing. On a parse error it logs one error and returns the value the
  parser returned with the error: \<open>false\<close> from \<open>ToBoolean\<close>, the zero time from
  \<open>ToTime\<close>, from \<open>ToInt64\<close> zero after a syntax error and the nearest bound of \<open>int64\<close>
  after a range error, and from \<open>ToFloat64\<close> whatever \<open>strconv.ParseFloat\<close> returned.
\<close>

theorem accessors_log_and_return_parser_value:
  "ToBoolean pg name lg =
     (case ParseBool (index pg name) of
        (v, None) \<Rightarrow> (v, lg)
      | (v, Some e) \<Rightarrow>
          (False, lg @ [Errorf ''PGRow.ToBoolean('%s'): %s'' [AString name, ANumError e]]))
   \<and> ToInt64 pg name lg =
     (case ParseInt (index pg name) of
        (v, None) \<Rightarrow> (v, lg)
      | (v, Some e) \<Rightarrow>
          ((case e of
              NumError f n ErrSyntax \<Rightarrow> 0
            | NumError f n ErrRange \<Rightarrow>
                if index pg name ! 0 = CHR ''-'' then - 9223372036854775808 else 9223372036854775807),
           lg @ [Errorf ''PGRow.ToInt64('%s', 0, 64): %s'' [AString name, ANumError e]]))
   \<and> ToFloat64 ParseFloat pg name lg =
     (case ParseFloat (index pg name) of
        (v, None) \<Rightarrow> (v, lg)
      | (v, Some e) \<Rightarrow>
          (v, lg @ [Errorf ''PGRow.ToFloat64('%s', 64): %s'' [AString name, ANumError e]]))
   \<and> ToTime pg name lg =
     (case Parse (index pg name) of
        (v, None) \<Rightarrow> (v, lg)
      | (v, Some e) \<Rightarrow>
          (zeroTime, lg @ [Errorf ''PGRow.ToTime('%s'): %s'' [AString name, AParseError e]]))"
proof -
  have b: "ToBoolean pg name lg =
     (case ParseBool (index pg name) of
        (v, None) \<Rightarrow> (v, lg)
      | (v, Some e) \<Rightarrow>
          (False, lg @ [Errorf ''PGRow.ToBoolean('%s'): %s'' [AString name, ANumError e]]))"
    by (simp add: ToBoolean_def ParseBool_def)
  have i: "ToInt64 pg name lg =
     (case ParseInt (index pg name) of
        (v, None) \<Rightarrow> (v, lg)
      | (v, Some e) \<Rightarrow>
          ((case e of
              NumError f n ErrSyntax \<Rightarrow> 0
            | NumError f n ErrRange \<Rightarrow>
                if index pg name ! 0 = CHR ''-'' then - 9223372036854775808 else 9223372036854775807),
           lg @ [Errorf ''PGRow.ToInt64('%s', 0, 64): %s'' [AString name, ANumError e]]))"
  proof (cases "ParseInt (index pg name)")
    case (Pair v eo)
    show ?thesis
    proof (cases eo)
      case None
      with Pair show ?thesis by (simp add: ToInt64_def)
    next
      case (Some e)
      with Pair ParseInt_error_value[of "index pg name" v e] show ?thesis
        by (auto simp: ToInt64_def)
    qed
  qed
  have f: "ToFloat64 ParseFloat pg name lg =
     (case ParseFloat (index pg name) of
        (v, None) \<Rightarrow> (v, lg)
      | (v, Some e) \<Rightarrow>
          (v, lg @ [Errorf ''PGRow.ToFloat64('%s', 64): %s'' [AString name, ANumError e]]))"
    by (simp add: ToFloat64_def split: prod.splits option.splits)
  have t: "ToTime pg name lg =
     (case Parse (index pg name) of
        (v, None) \<Rightarrow> (v, lg)
      | (v, Some e) \<Rightarrow>
          (zeroTime, lg @ [Errorf ''PGRow.ToTime('%s'): %s'' [AString name, AParseError e]]))"
    by (simp add: ToTime_def Parse_def split: option.splits)
  from b i f t show ?thesis by blast
qed

text \<open>
  C9, as the claim has it, fails: for the text \<open>9223372036854775808\<close>, one beyond the
  largest \<open>int64\<close>, \<open>ToInt64\<close> logs the range error and returns the largest \<open>int64\<close>,
  not zero.
\<close>

theorem ToInt64_out_of_range_returns_bound:
  "ToInt64 (Some [''n'' \<mapsto> ''9223372036854775808'']) ''n'' [] =
     (9223372036854775807,
      [Errorf ''PGRow.ToInt64('%s', 0, 64): %s''
         [AString ''n'', ANumError (NumError ''ParseInt'' ''9223372036854775808'' ErrRange)]])
   \<and> (9223372036854775807 :: int64) \<noteq> 0"
  by (simp add: ToInt64_def index_def ParseInt_def ParseUint_def isDigitChar_def ord_def maxUint64_def Let_def)

subsection \<open>The query logger\<close>

text \<open>
  The query that runs is the one given, with its arguments, whether or not the logger is
  on: when \<open>sqlQuery\<close> returns, \<open>sctxQuery\<close> returns what it returns without it.
\<close>

lemma sctxQuery_runs_the_query_given:
  "fst (sctxQuery (Some t) (Some c) False ms query args lg)
     = (case QueryContext t query args of
          Inl err \<Rightarrow> Return (None, Some err)
        | Inr rows \<Rightarrow> Return (Some rows, None))"
  "\<not> panics (fst (sqlQuery ms query args (lg @ [EstimatedPrint ''Query'']))) \<Longrightarrow>
   fst (sctxQuery pgstx pgctx True ms query args lg) = fst (sctxQuery pgstx pgctx False ms query args lg)"
  by (auto simp: sctxQuery_def Let_def panics_def split: sum.splits outcome.splits prod.splits)

text \<open>
  C7. The claim: each placeholder \<open>$N\<close> is rendered as the Nth argument between quotes.
  With ten arguments the placeholder \<open>$10\<close> is rendered as the first argument between
  quotes followed by \<open>0\<close>: the pattern for the first argument, \<open>\$1\<close>, also matches the
  beginning of \<open>$10\<close>.
\<close>

theorem sqlQuery_tenth_placeholder:
  "sqlQuery 3 ''SELECT $10'' (map VString [''a'', ''b'', ''c'', ''d'', ''e'', ''f'', ''g'', ''h'', ''i'', ''j'']) []
    = (Return (),
       [Printf (''[Query]'' @ [CHR 0x0A]),
        Println (''SELECT '' @ [CHR 0x27] @ ''a'' @ [CHR 0x27] @ ''0''),
        Printf ([CHR 0x0A] @ ''Elapsed time 3 ms estimated.''),
        Printf ([CHR 0x0A] @ ''[Query]'')])"
  by code_simp


end
